theory Spec2Isabelle
  imports
    Complex_Main
    "HOL-Library.Option_ord"
    "HOL-Library.Sublist"
    "HOL-Library.Monad_Syntax"
    "HOL-Library.Multiset"
begin

section \<open>Data model\<close>

text \<open>
  The program keeps its data in pandas data frames. A frame is modelled as the list of
  its rows, in the frame's row order; a column is the list of one field of every row.
  A cell that pandas holds as NaN (a blank of the file, an unmapped category, a value
  coerced away) is \<open>None\<close>. Floating-point cells are modelled as real numbers, text
  cells as strings over code points below 256. A raised exception is the result
  \<open>None\<close> of an operation.
\<close>

text \<open>
  A cell of the file as \<open>read_csv\<close> finds it: a number, a text or a blank.
  \<open>read_csv\<close> types a column numeric when every cell that is not blank is a number,
  and as text otherwise; a file without lines has text columns.
\<close>

datatype cell = Number real | Text string | Blank

text \<open>One line of \<open>Meteorite_Landings.csv\<close>, columns under their names in the file.\<close>

record raw_row =
  id_col :: int
  name :: "string option"
  nametype :: "string option"
  recclass :: cell
  mass_g :: "real option"
  fall :: "string option"
  year :: cell
  reclat :: "real option"
  reclong :: "real option"
  GeoLocation :: "string option"

text \<open>
  A row after \<open>read_meteorite_date\<close>: indexed by \<open>id\<close>, without \<open>nametype\<close> and
  \<open>GeoLocation\<close>, columns renamed.
\<close>

record row =
  row_id :: int
  Meteorite_Name :: "string option"
  Classification :: "string option"
  Mass_g :: "real option"
  Discovery_Type :: "string option"
  Year :: "real option"
  Latitude :: "real option"
  Longitude :: "real option"

text \<open>A row of \<open>meteorite_data\<close> once \<open>main\<close> has added the column \<open>Type\<close>.\<close>

record classified = row +
  Type :: "string option"

text \<open>A row of \<open>top_10\<close> in \<open>chart_top_mass_by_year\<close>, with the column \<open>Mass (kg)\<close>.\<close>

record weighed = classified +
  Mass_kg :: "real option"

section \<open>The classification table\<close>

definition meteorite_class :: "(string \<times> string) list" where
  "meteorite_class =
    [(''CB'', ''Carbonaceous Chondrite''), (''CH'', ''Carbonaceous Chondrite''),
     (''CK'', ''Carbonaceous Chondrite''), (''CM'', ''Carbonaceous Chondrite''),
     (''CR'', ''Carbonaceous Chondrite''), (''CV'', ''Carbonaceous Chondrite''),
     (''CO'', ''Carbonaceous Chondrite''), (''CI'', ''Carbonaceous Chondrite''),
     (''H'', ''Ordinary Chondrite''), (''L'', ''Ordinary Chondrite''),
     (''LL'', ''Ordinary Chondrite''),
     (''R'', ''Rumuruti Chondrite''),
     (''EH'', ''Enstatite Chondrite''), (''EL'', ''Enstatite Chondrite''),
     (''Lodranite'', ''Primitive Achondrite''), (''Acapulcoite'', ''Primitive Achondrite''),
     (''Winonaite'', ''Primitive Achondrite''),
     (''Shergottite'', ''Martian''), (''Nakhlite'', ''Martian''), (''Chassignite'', ''Martian''),
     (''Aubrite'', ''Aubrite''),
     (''Ureilite'', ''Ureilite''),
     (''Howardite'', ''HED''), (''Eucrite'', ''HED''), (''Diogenite'', ''HED''),
     (''Angrite'', ''Angrite''),
     (''Brachinite'', ''Brachinite''),
     (''Feldspathic Breccia'', ''Lunar''), (''Basaltic'', ''Lunar''), (''Polymict'', ''Lunar''),
     (''IAB'', ''Iron Meteorite''), (''IIAB'', ''Iron Meteorite''),
     (''IIIAB'', ''Iron Meteorite''), (''IVAB'', ''Iron Meteorite''),
     (''Pallasite'', ''Stony-Iron''), (''Mesosiderite'', ''Stony-Iron'')]"

section \<open>Loading and cleaning\<close>

text \<open>
  The pattern \<open>\d\<close> matches a decimal digit; among the code points below 256 these are
  \<open>0\<close> to \<open>9\<close>.
\<close>

definition is_digit :: "char \<Rightarrow> bool" where
  "is_digit c = (48 \<le> (of_char c :: nat) \<and> (of_char c :: nat) \<le> 57)"

text \<open>
  \<open>str.strip()\<close> without argument removes the characters for which \<open>str.isspace\<close>
  holds: tab, line feed, vertical tab, form feed, carriage return, the four separators
  28 to 31, space, next line (133) and no-break space (160).
\<close>

definition is_space :: "char \<Rightarrow> bool" where
  "is_space c = ((of_char c :: nat) \<in> set [9, 10, 11, 12, 13, 28, 29, 30, 31, 32, 133, 160])"

text \<open>
  \<open>.str.replace('\d+', '', regex=True)\<close> on one string: every maximal run of digits is
  replaced by the empty string, which deletes every digit and nothing else.
\<close>

definition str_replace_digits :: "string \<Rightarrow> string" where
  "str_replace_digits s = filter (\<lambda>c. \<not> is_digit c) s"

definition str_strip :: "string \<Rightarrow> string" where
  "str_strip s = rev (dropWhile is_space (rev (dropWhile is_space s)))"

text \<open>
  \<open>pd.to_numeric\<close>. The parameter \<open>errors\<close> decides what happens to a cell that does
  not parse: \<open>raise\<close> raises ValueError, \<open>coerce\<close> gives NaN. Which texts parse as
  numbers is pandas' business and is the parameter \<open>parse\<close>.
\<close>

datatype errors_arg = errors_raise | errors_coerce

fun to_numeric_cell :: "(string \<Rightarrow> real option) \<Rightarrow> errors_arg \<Rightarrow> cell \<Rightarrow> real option option" where
  "to_numeric_cell parse errors (Number x) = Some (Some x)"
| "to_numeric_cell parse errors Blank = Some None"
| "to_numeric_cell parse errors (Text s) =
     (case parse s of
        Some x \<Rightarrow> Some (Some x)
      | None \<Rightarrow> (case errors of errors_coerce \<Rightarrow> Some None | errors_raise \<Rightarrow> None))"

fun to_numeric :: "(string \<Rightarrow> real option) \<Rightarrow> errors_arg \<Rightarrow> cell list \<Rightarrow> real option list option" where
  "to_numeric parse errors [] = Some []"
| "to_numeric parse errors (c # cs) =
     (case to_numeric_cell parse errors c of
        None \<Rightarrow> None
      | Some v \<Rightarrow> (case to_numeric parse errors cs of None \<Rightarrow> None | Some vs \<Rightarrow> Some (v # vs)))"

text \<open>
  The accessor \<open>.str\<close> is there for a column of texts only, and asking a numeric
  column for it raises AttributeError. A column is one of texts when the file has no
  line, or when some cell holds a text that is not a number; a column whose cells are
  numbers and blanks, or all blank, is numeric.
\<close>

definition is_text :: "(string \<Rightarrow> real option) \<Rightarrow> cell \<Rightarrow> bool" where
  "is_text parse c = (case c of Text s \<Rightarrow> parse s = None | Number x \<Rightarrow> False | Blank \<Rightarrow> False)"

definition has_str_accessor :: "(string \<Rightarrow> real option) \<Rightarrow> cell list \<Rightarrow> bool" where
  "has_str_accessor parse col = (col = [] \<or> list_ex (is_text parse) col)"

text \<open>
  \<open>.str.replace('\d+', '', regex=True).str.strip()\<close> on one cell of a column of
  texts: a cell that is not a text gives NaN.
\<close>

definition clean_Classification :: "cell \<Rightarrow> string option" where
  "clean_Classification c =
     (case c of Text s \<Rightarrow> Some (str_strip (str_replace_digits s))
      | Number x \<Rightarrow> None | Blank \<Rightarrow> None)"

text \<open>
  The columns that \<open>read_meteorite_date\<close> keeps, under their new names; \<open>Classification\<close>
  and \<open>Year\<close> are replaced by the cleaned columns afterwards.
\<close>

definition rename_row :: "raw_row \<Rightarrow> string option \<Rightarrow> real option \<Rightarrow> row" where
  "rename_row r c y =
     \<lparr>row_id = id_col r, Meteorite_Name = name r, Classification = c, Mass_g = mass_g r,
      Discovery_Type = fall r, Year = y, Latitude = reclat r, Longitude = reclong r\<rparr>"

definition read_meteorite_date ::
  "(string \<Rightarrow> real option) \<Rightarrow> raw_row list \<Rightarrow> (row list \<times> nat) option" where
  "read_meteorite_date parse csv =
     (let total_records = length csv
      in if \<not> has_str_accessor parse (map recclass csv) then None
         else
           let classification = map (\<lambda>r. clean_Classification (recclass r)) csv
           in case to_numeric parse errors_coerce (map year csv) of
                None \<Rightarrow> None
              | Some years \<Rightarrow>
                  Some (map (\<lambda>(r, c, y). rename_row r c y) (zip csv (zip classification years)),
                        total_records))"

section \<open>Classification\<close>

text \<open>
  \<open>meteorite_data["Type"] = meteorite_data["Classification"].map(meteorite_class)\<close>:
  a key that the dictionary does not have gives NaN, and so does a NaN.
\<close>

definition map_class :: "string option \<Rightarrow> string option" where
  "map_class c = (case c of None \<Rightarrow> None | Some k \<Rightarrow> map_of meteorite_class k)"

definition add_Type :: "row list \<Rightarrow> classified list" where
  "add_Type df = map (\<lambda>r. row.extend r \<lparr>Type = map_class (Classification r)\<rparr>) df"

section \<open>Filtering\<close>

text \<open>
  What the user chose in the sidebar: the list of the multiselect, the pair of the year
  slider (integers) and the pair of the mass slider (floats).
\<close>

record selection =
  selected_types :: "string list"
  selected_year_range :: "int \<times> int"
  selected_mass_range :: "real \<times> real"

text \<open>A comparison of a column with a number is false at a NaN; so is \<open>isin\<close>.\<close>

definition series_ge :: "real option \<Rightarrow> real \<Rightarrow> bool" where
  "series_ge v b = (case v of None \<Rightarrow> False | Some x \<Rightarrow> b \<le> x)"

definition series_le :: "real option \<Rightarrow> real \<Rightarrow> bool" where
  "series_le v b = (case v of None \<Rightarrow> False | Some x \<Rightarrow> x \<le> b)"

definition isin :: "string option \<Rightarrow> string list \<Rightarrow> bool" where
  "isin v vals = (case v of None \<Rightarrow> False | Some c \<Rightarrow> c \<in> set vals)"

definition mask_Type :: "string list \<Rightarrow> classified \<Rightarrow> bool" where
  "mask_Type types r = isin (Type r) types"

definition mask_Mass :: "real \<times> real \<Rightarrow> classified \<Rightarrow> bool" where
  "mask_Mass mass_range r =
     (series_ge (Mass_g r) (fst mass_range) \<and> series_le (Mass_g r) (snd mass_range))"

definition mask_Year :: "int \<times> int \<Rightarrow> classified \<Rightarrow> bool" where
  "mask_Year year_range r =
     (series_ge (Year r) (real_of_int (fst year_range)) \<and>
      series_le (Year r) (real_of_int (snd year_range)))"

definition notna_Year :: "classified \<Rightarrow> bool" where
  "notna_Year r = (Year r \<noteq> None)"

text \<open>
  The rows of \<open>filtered_data\<close> after the three filter steps of \<open>main\<close>, as a function of
  the rows of \<open>meteorite_data\<close>. An empty list is false in Python, so the category step
  is skipped for an empty selection.
\<close>

definition filter_engine :: "selection \<Rightarrow> classified list \<Rightarrow> classified list" where
  "filter_engine sel meteorite_data =
     (let filtered_data = meteorite_data;
          filtered_data =
            (if selected_types sel \<noteq> []
             then filter (mask_Type (selected_types sel)) filtered_data
             else filtered_data);
          filtered_data = filter (mask_Mass (selected_mass_range sel)) filtered_data;
          filtered_data = filter notna_Year filtered_data;
          filtered_data = filter (mask_Year (selected_year_range sel)) filtered_data
      in filtered_data)"

text \<open>
  \<open>astype(int)\<close> on a float truncates towards zero, and raises on a NaN.
\<close>

definition astype_int :: "real \<Rightarrow> real" where
  "astype_int x = real_of_int (if 0 \<le> x then \<lfloor>x\<rfloor> else \<lceil>x\<rceil>)"

definition Year_astype_int :: "classified list \<Rightarrow> classified list option" where
  "Year_astype_int df =
     (if list_all notna_Year df
      then Some (map (\<lambda>r. r\<lparr>Year := map_option astype_int (Year r)\<rparr>) df)
      else None)"

subsection \<open>Frames as objects\<close>

text \<open>
  \<open>main\<close> holds frames in variables and assigns to a column of one of them. To see which
  frame an assignment changes, frames live in a store: a variable holds the address of
  its frame, the store lists the frames by address, and a new frame gets the next free
  address. \<open>copy\<close>, indexing with a mask and \<open>dropna\<close> build a new frame; assigning to a
  column changes the frame at the address.
\<close>

type_synonym store = "classified list list"

definition df_copy :: "nat \<Rightarrow> store \<Rightarrow> (nat \<times> store) option" where
  "df_copy df s = (if df < length s then Some (length s, s @ [s ! df]) else None)"

definition df_getitem :: "(classified \<Rightarrow> bool) \<Rightarrow> nat \<Rightarrow> store \<Rightarrow> (nat \<times> store) option" where
  "df_getitem keep df s =
     (if df < length s then Some (length s, s @ [filter keep (s ! df)]) else None)"

definition df_setitem_Year_astype_int :: "nat \<Rightarrow> store \<Rightarrow> store option" where
  "df_setitem_Year_astype_int df s =
     (if df < length s
      then (case Year_astype_int (s ! df) of None \<Rightarrow> None | Some rows \<Rightarrow> Some (s[df := rows]))
      else None)"

definition df_rows :: "nat \<Rightarrow> store \<Rightarrow> classified list option" where
  "df_rows df s = (if df < length s then Some (s ! df) else None)"

text \<open>
  The filter block of \<open>main\<close>, from \<open>filtered_data = meteorite_data.copy()\<close> to the
  conversion of \<open>Year\<close>: it returns the address held by \<open>filtered_data\<close> and the store.
\<close>

definition apply_filters :: "selection \<Rightarrow> nat \<Rightarrow> store \<Rightarrow> (nat \<times> store) option" where
  "apply_filters sel meteorite_data s0 = do {
     (filtered_data, s1) \<leftarrow> df_copy meteorite_data s0;
     (filtered_data, s2) \<leftarrow>
        (if selected_types sel \<noteq> []
         then df_getitem (mask_Type (selected_types sel)) filtered_data s1
         else Some (filtered_data, s1));
     (filtered_data, s3) \<leftarrow> df_getitem (mask_Mass (selected_mass_range sel)) filtered_data s2;
     (filtered_data, s4) \<leftarrow> df_getitem notna_Year filtered_data s3;
     (filtered_data, s5) \<leftarrow> df_getitem (mask_Year (selected_year_range sel)) filtered_data s4;
     s6 \<leftarrow> df_setitem_Year_astype_int filtered_data s5;
     Some (filtered_data, s6)
   }"

section \<open>Derived views\<close>

text \<open>
  \<open>sort_values\<close> on one column: rows with a NaN key go last, the others are sorted by
  the key; for a descending sort pandas reverses the rows, sorts ascending and reverses
  the result. The sorting itself is done by the routine that the argument \<open>kind\<close>
  names. The default kind, which the program uses throughout, promises the rows in
  ascending order of the key and nothing about rows with equal keys; so the routine is
  a parameter here, of which only that promise is known.
\<close>

type_synonym ('a, 'b) routine = "('a \<Rightarrow> 'b) \<Rightarrow> 'a list \<Rightarrow> 'a list"

definition sort_values_kind ::
  "('a, 'b::linorder option) routine \<Rightarrow> ('a \<Rightarrow> 'b option) \<Rightarrow> bool \<Rightarrow> 'a list \<Rightarrow> 'a list" where
  "sort_values_kind kind col ascending df =
     (let present = filter (\<lambda>r. col r \<noteq> None) df;
          missing = filter (\<lambda>r. col r = None) df
      in (if ascending then kind col present else rev (kind col (rev present)))
         @ missing)"

definition sorting_routine :: "('a, 'b::linorder) routine \<Rightarrow> bool" where
  "sorting_routine kind =
     (\<forall>col xs. mset (kind col xs) = mset xs \<and> sorted (map col (kind col xs)))"

text \<open>
  \<open>sort_values\<close> with the routine that keeps rows of equal key in their order in the
  frame, as the kind \<open>stable\<close> does.
\<close>

definition sort_values :: "('a \<Rightarrow> 'b::linorder option) \<Rightarrow> bool \<Rightarrow> 'a list \<Rightarrow> 'a list" where
  "sort_values col ascending df =
     (let present = filter (\<lambda>r. col r \<noteq> None) df;
          missing = filter (\<lambda>r. col r = None) df
      in (if ascending then sort_key col present else rev (sort_key col (rev present)))
         @ missing)"

subsection \<open>Category totals\<close>

text \<open>
  \<open>value_counts\<close> counts the values of a column other than NaN, keeping the values in
  the order in which it meets them first, and sorts by count, largest first.
\<close>

fun bump :: "'a \<Rightarrow> ('a \<times> nat) list \<Rightarrow> ('a \<times> nat) list" where
  "bump k [] = [(k, 1)]"
| "bump k ((k', n) # kvs) = (if k = k' then (k', Suc n) # kvs else (k', n) # bump k kvs)"

definition tally :: "'a option list \<Rightarrow> ('a \<times> nat) list" where
  "tally col = foldl (\<lambda>acc v. case v of None \<Rightarrow> acc | Some k \<Rightarrow> bump k acc) [] col"

definition value_counts ::
  "('a \<times> nat, nat option) routine \<Rightarrow> 'a option list \<Rightarrow> ('a \<times> nat) list" where
  "value_counts kind col = sort_values_kind kind (\<lambda>kv. Some (snd kv)) False (tally col)"

text \<open>
  \<open>df["Type"].value_counts().sort_values(ascending=False)\<close>, both sorts with the
  default kind.
\<close>

definition type_counts ::
  "(string \<times> nat, nat option) routine \<Rightarrow> classified list \<Rightarrow> (string \<times> nat) list" where
  "type_counts kind df =
     sort_values_kind kind (\<lambda>kv. Some (snd kv)) False (value_counts kind (map Type df))"

text \<open>
  \<open>chart_type_distribution\<close> draws one bar per entry of \<open>type_counts\<close>, in that order,
  and returns with a warning and no chart when there is none.
\<close>

definition chart_type_distribution ::
  "(string \<times> nat, nat option) routine \<Rightarrow> classified list \<Rightarrow> (string \<times> nat) list option" where
  "chart_type_distribution kind df =
     (let tc = type_counts kind df in if tc = [] then None else Some tc)"

subsection \<open>The ten heaviest\<close>

text \<open>
  The two sorts of \<open>chart_top_mass_by_year\<close> are taken with the routine that keeps
  rows of equal mass in their order.
\<close>

definition add_Mass_kg :: "classified \<Rightarrow> weighed" where
  "add_Mass_kg r = classified.extend r \<lparr>Mass_kg = map_option (\<lambda>m. m / 1000) (Mass_g r)\<rparr>"

definition chart_top_mass_by_year :: "classified list \<Rightarrow> int \<times> int \<Rightarrow> weighed list" where
  "chart_top_mass_by_year df year_range =
     (let df_filtered = filter (\<lambda>r. Mass_g r \<noteq> None \<and> Year r \<noteq> None) df;
          df_filtered = filter (mask_Year year_range) df_filtered;
          top_10 = take 10 (sort_values Mass_g False df_filtered);
          top_10 = map add_Mass_kg top_10;
          top_10 = sort_values Mass_kg True top_10
      in top_10)"

text \<open>
  The same with the routines of the two sorts as parameters, to see what of the view
  depends on them.
\<close>

definition chart_top_mass_by_year_kind ::
  "(classified, real option) routine \<Rightarrow> (weighed, real option) routine \<Rightarrow>
   classified list \<Rightarrow> int \<times> int \<Rightarrow> weighed list" where
  "chart_top_mass_by_year_kind kind_g kind_kg df year_range =
     (let df_filtered = filter (\<lambda>r. Mass_g r \<noteq> None \<and> Year r \<noteq> None) df;
          df_filtered = filter (mask_Year year_range) df_filtered;
          top_10 = take 10 (sort_values_kind kind_g Mass_g False df_filtered);
          top_10 = map add_Mass_kg top_10;
          top_10 = sort_values_kind kind_kg Mass_kg True top_10
      in top_10)"

section \<open>The page\<close>

text \<open>
  What one run of \<open>main\<close> shows, as far as the data goes: the two counts of the info
  line, the bars of chart 2 and of chart 3 when they are drawn, and the table. The map
  and chart 1 work on copies of \<open>filtered_data\<close> and are left out.
\<close>

record page =
  filtered_records :: nat
  total_data_count :: nat
  chart2 :: "(string \<times> nat) list option"
  chart3 :: "weighed list option"
  dataframe :: "classified list"

text \<open>
  \<open>main\<close> after the sidebar: \<open>meteorite_data\<close> is the address of the loaded and classified
  frame, \<open>sel\<close> the values of the widgets, \<open>kind\<close> the sorting routine behind chart 2.
  The charts are drawn only when \<open>filtered_data\<close> has a row.
\<close>

definition main ::
  "(string \<times> nat, nat option) routine \<Rightarrow> selection \<Rightarrow> nat \<Rightarrow> store \<Rightarrow> (page \<times> store) option" where
  "main kind sel meteorite_data s0 = do {
     (filtered_data, s) \<leftarrow> apply_filters sel meteorite_data s0;
     filtered_rows \<leftarrow> df_rows filtered_data s;
     meteorite_rows \<leftarrow> df_rows meteorite_data s;
     Some (\<lparr>filtered_records = length filtered_rows,
            total_data_count = length meteorite_rows,
            chart2 = (if filtered_rows \<noteq> []
                      then chart_type_distribution kind filtered_rows else None),
            chart3 = (if filtered_rows \<noteq> []
                      then Some (chart_top_mass_by_year meteorite_rows (selected_year_range sel))
                      else None),
            dataframe = filtered_rows\<rparr>, s)
   }"

section \<open>Reference predicates\<close>

text \<open>
  The rows that the view of the ten heaviest is about, in the words of the
  specification: mass present, year present and inside the year interval.
\<close>

definition qualifying :: "classified list \<Rightarrow> int \<times> int \<Rightarrow> classified list" where
  "qualifying df year_range =
     filter (\<lambda>r. (\<exists>m. Mass_g r = Some m) \<and>
                 (\<exists>y. Year r = Some y \<and> real_of_int (fst year_range) \<le> y \<and>
                      y \<le> real_of_int (snd year_range))) df"

text \<open>
  The place of the first row of a category in a column: the number of cells before the
  first cell that holds the category.
\<close>

definition first_seen :: "'a \<Rightarrow> 'a option list \<Rightarrow> nat" where
  "first_seen k col = length (takeWhile (\<lambda>v. v \<noteq> Some k) col)"

section \<open>A small data set\<close>

text \<open>
  Four lines of a file: three with the codes \<open>L6\<close>, \<open>H5\<close> and \<open>CM\<close>, and one whose year
  is the text \<open>unknown\<close> and whose code, \<open>H4/5\<close> between blanks, cleans to a code that
  the table does not have.
\<close>

definition example_parse :: "string \<Rightarrow> real option" where
  "example_parse s = (if s = ''1999'' then Some 1999 else None)"

definition example_raw :: "int \<Rightarrow> string \<Rightarrow> real \<Rightarrow> cell \<Rightarrow> raw_row" where
  "example_raw i c m y =
     \<lparr>id_col = i, name = Some ''M'', nametype = Some ''Valid'', recclass = Text c,
      mass_g = Some m, fall = Some ''Fell'', year = y, reclat = None, reclong = None,
      GeoLocation = None\<rparr>"

definition example_csv :: "raw_row list" where
  "example_csv =
     [example_raw 1 ''L6'' 500 (Number 2000), example_raw 2 ''H5'' 1500 (Number 2000),
      example_raw 3 ''CM'' 3000 (Number 1999), example_raw 4 '' H4/5 '' 100 (Text ''unknown'')]"

definition example_row :: "int \<Rightarrow> string \<Rightarrow> real \<Rightarrow> real option \<Rightarrow> row" where
  "example_row i c m y =
     \<lparr>row_id = i, Meteorite_Name = Some ''M'', Classification = Some c, Mass_g = Some m,
      Discovery_Type = Some ''Fell'', Year = y, Latitude = None, Longitude = None\<rparr>"

definition example_loaded :: "row list" where
  "example_loaded =
     [example_row 1 ''L'' 500 (Some 2000), example_row 2 ''H'' 1500 (Some 2000),
      example_row 3 ''CM'' 3000 (Some 1999), example_row 4 ''H/'' 100 None]"

definition example_classified ::
  "int \<Rightarrow> string \<Rightarrow> real \<Rightarrow> real option \<Rightarrow> string option \<Rightarrow> classified" where
  "example_classified i c m y t =
     \<lparr>row_id = i, Meteorite_Name = Some ''M'', Classification = Some c, Mass_g = Some m,
      Discovery_Type = Some ''Fell'', Year = y, Latitude = None, Longitude = None, Type = t\<rparr>"

definition example_data :: "classified list" where
  "example_data =
     [example_classified 1 ''L'' 500 (Some 2000) (Some ''Ordinary Chondrite''),
      example_classified 2 ''H'' 1500 (Some 2000) (Some ''Ordinary Chondrite''),
      example_classified 3 ''CM'' 3000 (Some 1999) (Some ''Carbonaceous Chondrite''),
      example_classified 4 ''H/'' 100 None None]"

text \<open>
  Two rows of different categories, and a sorting routine that puts rows of equal key
  in the order of the lengths of their categories' names.
\<close>

definition example_ties :: "classified list" where
  "example_ties =
     [example_classified 1 ''L'' 500 (Some 2000) (Some ''Ordinary Chondrite''),
      example_classified 3 ''CM'' 3000 (Some 1999) (Some ''Carbonaceous Chondrite'')]"


text \<open>
  A selection that the sidebar offers for this data: one of the two categories, the
  year 2000 alone, and the whole range of the masses.
\<close>

definition example_selection :: selection where
  "example_selection =
     \<lparr>selected_types = [''Ordinary Chondrite''], selected_year_range = (2000, 2000),
      selected_mass_range = (100, 3000)\<rparr>"

section \<open>The small data set, loaded and classified\<close>

lemmas example_defs = example_parse_def example_raw_def example_csv_def example_row_def
  example_loaded_def example_classified_def example_data_def example_selection_def
  example_ties_def

lemmas mask_defs = mask_Type_def mask_Mass_def mask_Year_def notna_Year_def isin_def
  series_ge_def series_le_def

lemma example_load: "read_meteorite_date example_parse example_csv = Some (example_loaded, 4)"
  by (simp add: read_meteorite_date_def has_str_accessor_def is_text_def
      clean_Classification_def example_defs rename_row_def
      str_strip_def str_replace_digits_def is_digit_def is_space_def)

lemma example_classify: "add_Type example_loaded = example_data"
  by (simp add: add_Type_def example_defs map_class_def meteorite_class_def row.defs)

section \<open>Properties of loading and cleaning\<close>

lemma to_numeric_coerce:
  "to_numeric parse errors_coerce cs =
     Some (map (\<lambda>c. case c of Number x \<Rightarrow> Some x | Blank \<Rightarrow> None | Text s \<Rightarrow> parse s) cs)"
proof (induction cs)
  case Nil
  show ?case by simp
next
  case (Cons c cs)
  then show ?case by (cases c) (simp_all split: option.splits)
qed

lemma read_meteorite_date_rows:
  "read_meteorite_date parse csv =
     (if has_str_accessor parse (map recclass csv) then
     Some (map (\<lambda>r. rename_row r (clean_Classification (recclass r))
                  (case year r of Number x \<Rightarrow> Some x | Blank \<Rightarrow> None | Text s \<Rightarrow> parse s)) csv,
           length csv) else None)"
proof -
  have "map (\<lambda>(r, c, y). rename_row r c y) (zip xs (zip (map f xs) (map g xs))) =
        map (\<lambda>r. rename_row r (f r) (g r)) xs" for f g and xs :: "raw_row list"
    by (induction xs) simp_all
  then show ?thesis
    by (simp add: read_meteorite_date_def to_numeric_coerce Let_def)
qed



lemma set_str_strip: "set (str_strip s) \<subseteq> set s"
proof -
  have "set (str_strip s) = set (dropWhile is_space (rev (dropWhile is_space s)))"
    by (simp add: str_strip_def)
  also have "\<dots> \<subseteq> set (rev (dropWhile is_space s))"
    by (rule set_dropWhileD [THEN subsetI])
  also have "\<dots> \<subseteq> set s"
    using set_dropWhileD by fastforce
  finally show ?thesis .
qed

lemma last_dropWhile_nonempty: "dropWhile P xs \<noteq> [] \<Longrightarrow> last (dropWhile P xs) = last xs"
  by (induction xs) (auto split: if_splits)

lemma hd_str_strip: "str_strip s \<noteq> [] \<Longrightarrow> \<not> is_space (hd (str_strip s))"
proof -
  assume ne: "str_strip s \<noteq> []"
  let ?ys = "dropWhile is_space s"
  let ?zs = "dropWhile is_space (rev ?ys)"
  from ne have zs: "?zs \<noteq> []" by (simp add: str_strip_def)
  then have ys: "?ys \<noteq> []" by (metis dropWhile.simps(1) rev.simps(1))
  have "hd (str_strip s) = last ?zs" using zs by (simp add: str_strip_def hd_rev)
  also have "\<dots> = last (rev ?ys)" using zs by (rule last_dropWhile_nonempty)
  also have "\<dots> = hd ?ys" using ys by (simp add: last_rev)
  finally show ?thesis using ys hd_dropWhile by metis
qed

lemma last_str_strip: "str_strip s \<noteq> [] \<Longrightarrow> \<not> is_space (last (str_strip s))"
proof -
  assume ne: "str_strip s \<noteq> []"
  let ?zs = "dropWhile is_space (rev (dropWhile is_space s))"
  from ne have zs: "?zs \<noteq> []" by (simp add: str_strip_def)
  have "last (str_strip s) = hd ?zs" using zs by (simp add: str_strip_def last_rev)
  then show ?thesis using zs hd_dropWhile by metis
qed

text \<open>
  C6. In every row of the loaded frame, the classification code, when the row has one,
  contains no digit, and neither its first nor its last character is white space.
\<close>

theorem cleaned_code_no_digit_no_outer_space:
  assumes "read_meteorite_date parse csv = Some (df, n)"
    and "r \<in> set df" and "Classification r = Some c"
  shows "(\<forall>ch\<in>set c. \<not> is_digit ch) \<and>
         (c \<noteq> [] \<longrightarrow> \<not> is_space (hd c) \<and> \<not> is_space (last c))"
proof -
  from assms(1,2) obtain raw where
    "r = rename_row raw (clean_Classification (recclass raw))
           (case year raw of Number x \<Rightarrow> Some x | Blank \<Rightarrow> None | Text s \<Rightarrow> parse s)"
    by (auto simp: read_meteorite_date_rows split: if_splits)
  with assms(3) obtain s where c: "c = str_strip (str_replace_digits s)"
    by (auto simp: rename_row_def clean_Classification_def split: cell.splits)
  have "set c \<subseteq> set (str_replace_digits s)"
    unfolding c by (rule set_str_strip)
  then have "\<forall>ch\<in>set c. \<not> is_digit ch"
    by (auto simp: str_replace_digits_def)
  then show ?thesis
    using hd_str_strip [of "str_replace_digits s"] last_str_strip [of "str_replace_digits s"]
    by (simp add: c)
qed

theorem cleaned_code_no_digit_no_outer_space_witness:
  "read_meteorite_date example_parse example_csv = Some (example_loaded, 4) \<and>
   example_row 4 ''H/'' 100 None \<in> set example_loaded \<and>
   Classification (example_row 4 ''H/'' 100 None) = Some ''H/'' \<and>
   \<not> is_digit (CHR ''H'') \<and> \<not> is_digit (CHR ''/'') \<and>
   \<not> is_space (hd ''H/'') \<and> \<not> is_space (last ''H/'')"
proof -
  have a: "read_meteorite_date example_parse example_csv = Some (example_loaded, 4)"
    by (rule example_load)
  have b: "example_row 4 ''H/'' 100 None \<in> set example_loaded"
    by (simp add: example_loaded_def)
  have c: "Classification (example_row 4 ''H/'' 100 None) = Some ''H/''"
    by (simp add: example_row_def)
  from cleaned_code_no_digit_no_outer_space [OF a b c] a b c show ?thesis by simp
qed

section \<open>Properties of the classification\<close>

lemma add_Type_nth:
  "i < length df \<Longrightarrow>
     add_Type df ! i = row.extend (df ! i) \<lparr>Type = map_class (Classification (df ! i))\<rparr>"
  by (simp add: add_Type_def)

text \<open>
  C9. The classification adds a category to every row and cannot fail: the frame keeps
  its rows and their other columns; a row whose cleaned code is not a key of the table
  gets the absent category; and two rows with the same cleaned code get the same
  category.
\<close>

theorem unmapped_code_gives_absent_Type:
  "length (add_Type df) = length df \<and>
   (\<forall>i<length df.
      row.truncate (add_Type df ! i) = df ! i \<and>
      (\<forall>c. Classification (df ! i) = Some c \<and> c \<notin> fst ` set meteorite_class
           \<longrightarrow> Type (add_Type df ! i) = None) \<and>
      (\<forall>j<length df. Classification (df ! i) = Classification (df ! j)
           \<longrightarrow> Type (add_Type df ! i) = Type (add_Type df ! j)))"
proof -
  have "map_class (Some c) = None" if "c \<notin> fst ` set meteorite_class" for c
    using that by (simp add: map_class_def map_of_eq_None_iff)
  then show ?thesis
    by (auto simp: add_Type_nth row.defs) (simp add: add_Type_def)
qed

theorem unmapped_code_gives_absent_Type_witness:
  "length (add_Type example_loaded) = 4 \<and>
   Classification (example_loaded ! 3) = Some ''H/'' \<and> ''H/'' \<notin> fst ` set meteorite_class \<and>
   Type (add_Type example_loaded ! 3) = None"
proof -
  have len: "length example_loaded = 4" by (simp add: example_loaded_def)
  have c: "Classification (example_loaded ! 3) = Some ''H/''"
    by (simp add: example_loaded_def example_row_def)
  have k: "''H/'' \<notin> fst ` set meteorite_class"
    by (simp add: meteorite_class_def)
  from unmapped_code_gives_absent_Type [of example_loaded] len c k show ?thesis by simp
qed


section \<open>Properties of the filter\<close>

lemma filter_engine_filter:
  "filter_engine sel df =
     filter (\<lambda>r. (selected_types sel \<noteq> [] \<longrightarrow> mask_Type (selected_types sel) r) \<and>
                 mask_Mass (selected_mass_range sel) r \<and> notna_Year r \<and>
                 mask_Year (selected_year_range sel) r) df"
  by (auto simp: filter_engine_def Let_def intro: filter_cong)

lemma mask_Type_iff: "mask_Type types r \<longleftrightarrow> (\<exists>c. Type r = Some c \<and> c \<in> set types)"
  by (simp add: mask_Type_def isin_def split: option.splits)

lemma mask_Mass_iff:
  "mask_Mass rng r \<longleftrightarrow> (\<exists>m. Mass_g r = Some m \<and> fst rng \<le> m \<and> m \<le> snd rng)"
  by (auto simp: mask_Mass_def series_ge_def series_le_def split: option.splits)

lemma mask_Year_iff:
  "mask_Year rng r \<longleftrightarrow>
     (\<exists>y. Year r = Some y \<and> real_of_int (fst rng) \<le> y \<and> y \<le> real_of_int (snd rng))"
  by (auto simp: mask_Year_def series_ge_def series_le_def split: option.splits)

text \<open>
  C1, as the code has it. With no category selected the category step is skipped: the
  result is the rows whose mass is present and inside the mass interval and whose year
  is present and inside the year interval, whatever their category.
\<close>

theorem filter_engine_empty_selection:
  assumes "selected_types sel = []"
  shows "filter_engine sel df =
           filter (\<lambda>r. (\<exists>m. Mass_g r = Some m \<and> fst (selected_mass_range sel) \<le> m \<and>
                            m \<le> snd (selected_mass_range sel)) \<and>
                       (\<exists>y. Year r = Some y \<and> real_of_int (fst (selected_year_range sel)) \<le> y \<and>
                            y \<le> real_of_int (snd (selected_year_range sel)))) df"
  unfolding filter_engine_filter using assms
  by (auto simp: mask_Mass_iff mask_Year_iff notna_Year_def intro: filter_cong)

theorem filter_engine_empty_selection_witness:
  "selected_types (example_selection\<lparr>selected_types := []\<rparr>) = [] \<and>
   filter_engine (example_selection\<lparr>selected_types := []\<rparr>) example_data =
     [example_classified 1 ''L'' 500 (Some 2000) (Some ''Ordinary Chondrite''),
      example_classified 2 ''H'' 1500 (Some 2000) (Some ''Ordinary Chondrite'')]"
  using filter_engine_empty_selection [of "example_selection\<lparr>selected_types := []\<rparr>" example_data]
  by (simp add: example_defs)

text \<open>
  The claim as the specification states it fails: with no category selected, two rows
  of the small data set pass.
\<close>

theorem filter_engine_empty_selection_counterexample:
  "selected_types (example_selection\<lparr>selected_types := []\<rparr>) = [] \<and>
   filter_engine (example_selection\<lparr>selected_types := []\<rparr>) example_data \<noteq> []"
  by (simp add: example_defs filter_engine_def mask_defs)

text \<open>
  C2. With at least one category selected, the result is exactly the rows whose
  category is one of the selected, whose mass is present and inside the mass interval,
  and whose year is present and inside the year interval, in the order of the frame;
  no row of the result lacks its mass or its year.
\<close>

theorem filter_engine_exact:
  assumes "selected_types sel \<noteq> []"
  shows "filter_engine sel df =
           filter (\<lambda>r. (\<exists>c. Type r = Some c \<and> c \<in> set (selected_types sel)) \<and>
                       (\<exists>m. Mass_g r = Some m \<and> fst (selected_mass_range sel) \<le> m \<and>
                            m \<le> snd (selected_mass_range sel)) \<and>
                       (\<exists>y. Year r = Some y \<and> real_of_int (fst (selected_year_range sel)) \<le> y \<and>
                            y \<le> real_of_int (snd (selected_year_range sel)))) df \<and>
         (\<forall>r\<in>set (filter_engine sel df). Mass_g r \<noteq> None \<and> Year r \<noteq> None)"
proof -
  have "filter_engine sel df =
           filter (\<lambda>r. (\<exists>c. Type r = Some c \<and> c \<in> set (selected_types sel)) \<and>
                       (\<exists>m. Mass_g r = Some m \<and> fst (selected_mass_range sel) \<le> m \<and>
                            m \<le> snd (selected_mass_range sel)) \<and>
                       (\<exists>y. Year r = Some y \<and> real_of_int (fst (selected_year_range sel)) \<le> y \<and>
                            y \<le> real_of_int (snd (selected_year_range sel)))) df"
    unfolding filter_engine_filter using assms
    by (auto simp: mask_Type_iff mask_Mass_iff mask_Year_iff notna_Year_def intro: filter_cong)
  moreover have "\<forall>r\<in>set (filter_engine sel df). Mass_g r \<noteq> None \<and> Year r \<noteq> None"
    unfolding filter_engine_filter by (auto simp: mask_Mass_iff mask_Year_iff)
  ultimately show ?thesis by blast
qed

theorem filter_engine_exact_witness:
  "selected_types example_selection \<noteq> [] \<and>
   filter_engine example_selection example_data =
     [example_classified 1 ''L'' 500 (Some 2000) (Some ''Ordinary Chondrite''),
      example_classified 2 ''H'' 1500 (Some 2000) (Some ''Ordinary Chondrite'')] \<and>
   filter_engine (example_selection\<lparr>selected_year_range := (1399, 2025)\<rparr>) example_data =
     [example_classified 1 ''L'' 500 (Some 2000) (Some ''Ordinary Chondrite''),
      example_classified 2 ''H'' 1500 (Some 2000) (Some ''Ordinary Chondrite'')]"
  using filter_engine_exact [of example_selection example_data]
    filter_engine_exact [of "example_selection\<lparr>selected_year_range := (1399, 2025)\<rparr>" example_data]
  by (simp add: example_defs)

subsection \<open>The filter block on the store\<close>

lemma Year_astype_int_filter_engine:
  "Year_astype_int (filter_engine sel df) =
     Some (map (\<lambda>r. r\<lparr>Year := map_option astype_int (Year r)\<rparr>) (filter_engine sel df))"
  by (simp add: Year_astype_int_def filter_engine_filter list_all_iff)

lemma apply_filters_result:
  assumes "meteorite_data < length s"
  shows "\<exists>filtered_data s'.
           apply_filters sel meteorite_data s = Some (filtered_data, s') \<and>
           length s \<le> filtered_data \<and> filtered_data < length s' \<and>
           take (length s) s' = s \<and>
           s' ! filtered_data =
             map (\<lambda>r. r\<lparr>Year := map_option astype_int (Year r)\<rparr>)
               (filter_engine sel (s ! meteorite_data))"
proof (cases "selected_types sel = []")
  case True
  then show ?thesis
    using assms Year_astype_int_filter_engine [of sel "s ! meteorite_data"]
    by (simp add: apply_filters_def df_copy_def df_getitem_def df_setitem_Year_astype_int_def
        filter_engine_def nth_append Let_def)
next
  case False
  then show ?thesis
    using assms Year_astype_int_filter_engine [of sel "s ! meteorite_data"]
    by (simp add: apply_filters_def df_copy_def df_getitem_def df_setitem_Year_astype_int_def
        filter_engine_def nth_append Let_def)
qed

lemma nth_of_take: "take n s' = s \<Longrightarrow> i < n \<Longrightarrow> s' ! i = s ! i"
  by (metis nth_take)

text \<open>
  C7. The filter is a function of the frame and the selection that keeps the order of
  the frame: its result is the frame with the rows that fail a step left out, a
  subsequence of the frame. Run on the store, the filter block returns these rows (the
  year converted to a whole number); run again with the same selection on the store
  that the first run left, it returns the same rows in the same order.
\<close>

theorem filter_engine_pure_and_stable:
  assumes "meteorite_data < length s"
  shows "filter_engine sel (s ! meteorite_data) =
           filter (\<lambda>r. (selected_types sel \<noteq> [] \<longrightarrow> isin (Type r) (selected_types sel)) \<and>
                       mask_Mass (selected_mass_range sel) r \<and> Year r \<noteq> None \<and>
                       mask_Year (selected_year_range sel) r) (s ! meteorite_data) \<and>
         subseq (filter_engine sel (s ! meteorite_data)) (s ! meteorite_data) \<and>
         (\<exists>fd1 s1 fd2 s2.
            apply_filters sel meteorite_data s = Some (fd1, s1) \<and>
            apply_filters sel meteorite_data s1 = Some (fd2, s2) \<and>
            s1 ! fd1 = map (\<lambda>r. r\<lparr>Year := map_option astype_int (Year r)\<rparr>)
                         (filter_engine sel (s ! meteorite_data)) \<and>
            s2 ! fd2 = s1 ! fd1 \<and> s2 ! fd1 = s1 ! fd1)"
proof -
  have a: "filter_engine sel (s ! meteorite_data) =
           filter (\<lambda>r. (selected_types sel \<noteq> [] \<longrightarrow> isin (Type r) (selected_types sel)) \<and>
                       mask_Mass (selected_mass_range sel) r \<and> Year r \<noteq> None \<and>
                       mask_Year (selected_year_range sel) r) (s ! meteorite_data)"
    by (simp add: filter_engine_filter mask_Type_def notna_Year_def)
  have b: "subseq (filter_engine sel (s ! meteorite_data)) (s ! meteorite_data)"
    unfolding filter_engine_filter by (rule subseq_filter_left)
  from apply_filters_result [OF assms, of sel] obtain fd1 s1 where
    r1: "apply_filters sel meteorite_data s = Some (fd1, s1)" "length s \<le> fd1"
      "fd1 < length s1" "take (length s) s1 = s"
      "s1 ! fd1 = map (\<lambda>r. r\<lparr>Year := map_option astype_int (Year r)\<rparr>)
                    (filter_engine sel (s ! meteorite_data))"
    by blast
  from r1(2,3) assms have m1: "meteorite_data < length s1" by simp
  have same: "s1 ! meteorite_data = s ! meteorite_data"
    using r1(4) assms by (rule nth_of_take)
  from apply_filters_result [OF m1, of sel] obtain fd2 s2 where
    r2: "apply_filters sel meteorite_data s1 = Some (fd2, s2)" "take (length s1) s2 = s1"
      "s2 ! fd2 = map (\<lambda>r. r\<lparr>Year := map_option astype_int (Year r)\<rparr>)
                    (filter_engine sel (s1 ! meteorite_data))"
    by blast
  have "s2 ! fd1 = s1 ! fd1"
    using r2(2) r1(3) by (rule nth_of_take)
  moreover have "s2 ! fd2 = s1 ! fd1"
    by (simp add: r2(3) r1(5) same)
  ultimately show ?thesis
    using a b r1(1,5) r2(1) by blast
qed

theorem filter_engine_pure_and_stable_witness:
  "(0::nat) < length [example_data] \<and>
   subseq (filter_engine example_selection example_data) example_data \<and>
   (\<exists>fd1 s1 fd2 s2.
      apply_filters example_selection 0 [example_data] = Some (fd1, s1) \<and>
      apply_filters example_selection 0 s1 = Some (fd2, s2) \<and>
      s1 ! fd1 = [example_classified 1 ''L'' 500 (Some 2000) (Some ''Ordinary Chondrite''),
                  example_classified 2 ''H'' 1500 (Some 2000) (Some ''Ordinary Chondrite'')] \<and>
      s2 ! fd2 = s1 ! fd1)"
proof -
  have f: "filter_engine example_selection example_data =
        [example_classified 1 ''L'' 500 (Some 2000) (Some ''Ordinary Chondrite''),
         example_classified 2 ''H'' 1500 (Some 2000) (Some ''Ordinary Chondrite'')]"
    by (simp add: example_defs filter_engine_def mask_defs)
  have g: "map (\<lambda>r. r\<lparr>Year := map_option astype_int (Year r)\<rparr>)
        [example_classified 1 ''L'' 500 (Some 2000) (Some ''Ordinary Chondrite''),
         example_classified 2 ''H'' 1500 (Some 2000) (Some ''Ordinary Chondrite'')] =
        [example_classified 1 ''L'' 500 (Some 2000) (Some ''Ordinary Chondrite''),
         example_classified 2 ''H'' 1500 (Some 2000) (Some ''Ordinary Chondrite'')]"
    by (simp add: example_classified_def astype_int_def)
  have h: "(0::nat) < length [example_data]" by simp
  from filter_engine_pure_and_stable [OF h, of example_selection] obtain fd1 s1 fd2 s2 where
    sub: "subseq (filter_engine example_selection ([example_data] ! 0)) ([example_data] ! 0)" and
    r: "apply_filters example_selection 0 [example_data] = Some (fd1, s1)"
      "apply_filters example_selection 0 s1 = Some (fd2, s2)"
      "s1 ! fd1 = map (\<lambda>r. r\<lparr>Year := map_option astype_int (Year r)\<rparr>)
                    (filter_engine example_selection ([example_data] ! 0))"
      "s2 ! fd2 = s1 ! fd1"
    by blast
  from r(3) have "s1 ! fd1 =
        [example_classified 1 ''L'' 500 (Some 2000) (Some ''Ordinary Chondrite''),
         example_classified 2 ''H'' 1500 (Some 2000) (Some ''Ordinary Chondrite'')]"
    by (simp only: nth_Cons_0 f g)
  with sub r(1,2,4) h show ?thesis by auto
qed

text \<open>
  C8. The filter block leaves \<open>meteorite_data\<close> as it was: for every selection it
  returns, the frame it returns is a new one, at an address that the store did not
  have, and every frame that was in the store, \<open>meteorite_data\<close> among them, has the
  same rows with the same values in the same order afterwards.
\<close>

theorem apply_filters_leaves_meteorite_data:
  assumes "meteorite_data < length s"
  shows "\<exists>filtered_data s'.
           apply_filters sel meteorite_data s = Some (filtered_data, s') \<and>
           filtered_data \<noteq> meteorite_data \<and> length s \<le> filtered_data \<and>
           filtered_data < length s' \<and>
           s' ! meteorite_data = s ! meteorite_data \<and> take (length s) s' = s"
proof -
  from apply_filters_result [OF assms, of sel] obtain fd s' where
    r: "apply_filters sel meteorite_data s = Some (fd, s')" "length s \<le> fd"
      "fd < length s'" "take (length s) s' = s"
    by blast
  have "s' ! meteorite_data = s ! meteorite_data"
    using r(4) assms by (rule nth_of_take)
  moreover have "fd \<noteq> meteorite_data" using r(2) assms by simp
  ultimately show ?thesis using r by blast
qed

theorem apply_filters_leaves_meteorite_data_witness:
  "(0::nat) < length [example_data] \<and>
   (\<exists>filtered_data s'.
      apply_filters example_selection 0 [example_data] = Some (filtered_data, s') \<and>
      filtered_data \<noteq> 0 \<and> s' ! 0 = example_data \<and> take 1 s' = [example_data])"
proof -
  have h: "(0::nat) < length [example_data]" by simp
  from apply_filters_leaves_meteorite_data [OF h, of example_selection] show ?thesis
    by auto
qed


section \<open>Properties of the page\<close>

lemma main_result:
  assumes "meteorite_data < length s"
  shows "\<exists>p s'. main kind sel meteorite_data s = Some (p, s') \<and>
           s' ! meteorite_data = s ! meteorite_data \<and>
           dataframe p = map (\<lambda>r. r\<lparr>Year := map_option astype_int (Year r)\<rparr>)
                           (filter_engine sel (s ! meteorite_data)) \<and>
           filtered_records p = length (dataframe p) \<and>
           total_data_count p = length (s ! meteorite_data) \<and>
           chart3 p = (if dataframe p \<noteq> []
                       then Some (chart_top_mass_by_year (s ! meteorite_data) (selected_year_range sel))
                       else None)"
proof -
  from apply_filters_result [OF assms, of sel] obtain fd s' where
    r: "apply_filters sel meteorite_data s = Some (fd, s')" "length s \<le> fd"
      "fd < length s'" "take (length s) s' = s"
      "s' ! fd = map (\<lambda>r. r\<lparr>Year := map_option astype_int (Year r)\<rparr>)
                    (filter_engine sel (s ! meteorite_data))"
    by blast
  have same: "s' ! meteorite_data = s ! meteorite_data"
    using r(4) assms by (rule nth_of_take)
  from r(2,3) assms have m: "meteorite_data < length s'" by simp
  show ?thesis
    using r(3) m by (simp add: main_def r(1) df_rows_def same r(5))
qed

text \<open>
  C10, as the code has it. Chart 3 is drawn only when the filtered frame has a row; when
  it is drawn, its bars are the ten heaviest of \<open>meteorite_data\<close> within the year
  interval. So two runs on the same data with the same year interval, whose filtered
  frames both have a row, show the same chart 3, whatever their categories and mass
  intervals; a run whose filtered frame is empty shows none.
\<close>

theorem chart3_same_when_drawn:
  assumes "meteorite_data < length s"
    and "selected_year_range sel1 = selected_year_range sel2"
    and "main kind sel1 meteorite_data s = Some (p1, s1)"
    and "main kind sel2 meteorite_data s = Some (p2, s2)"
  shows "(dataframe p1 \<noteq> [] \<and> dataframe p2 \<noteq> [] \<longrightarrow>
            chart3 p1 = chart3 p2 \<and>
            chart3 p1 = Some (chart_top_mass_by_year (s ! meteorite_data) (selected_year_range sel1))) \<and>
         (dataframe p1 = [] \<longrightarrow> chart3 p1 = None)"
  using main_result [OF assms(1), of kind sel1] main_result [OF assms(1), of kind sel2]
    assms(2,3,4)
  by auto

theorem chart3_same_when_drawn_witness:
  "(0::nat) < length [example_data] \<and>
   selected_year_range example_selection =
     selected_year_range (example_selection\<lparr>selected_types := [], selected_mass_range := (1100, 2100)\<rparr>) \<and>
   (\<exists>p1 s1 p2 s2.
      main sort_key example_selection 0 [example_data] = Some (p1, s1) \<and>
      main sort_key
        (example_selection\<lparr>selected_types := [], selected_mass_range := (1100, 2100)\<rparr>) 0
        [example_data] = Some (p2, s2) \<and>
      dataframe p1 \<noteq> [] \<and> dataframe p2 \<noteq> [] \<and> length (dataframe p1) \<noteq> length (dataframe p2) \<and>
      chart3 p1 = chart3 p2)"
proof -
  let ?sel2 = "example_selection\<lparr>selected_types := [], selected_mass_range := (1100, 2100)\<rparr>"
  have h: "(0::nat) < length [example_data]" by simp
  have y: "selected_year_range example_selection = selected_year_range ?sel2" by simp
  from main_result [OF h, of sort_key example_selection] obtain p1 s1 where
    m1: "main sort_key example_selection 0 [example_data] = Some (p1, s1)" and
    d1: "dataframe p1 = map (\<lambda>r. r\<lparr>Year := map_option astype_int (Year r)\<rparr>)
                           (filter_engine example_selection ([example_data] ! 0))"
    by blast
  from main_result [OF h, of sort_key ?sel2] obtain p2 s2 where
    m2: "main sort_key ?sel2 0 [example_data] = Some (p2, s2)" and
    d2: "dataframe p2 = map (\<lambda>r. r\<lparr>Year := map_option astype_int (Year r)\<rparr>)
                           (filter_engine ?sel2 ([example_data] ! 0))"
    by blast
  have l1: "length (dataframe p1) = 2"
    unfolding d1 by (simp add: example_defs filter_engine_def mask_defs)
  have l2: "length (dataframe p2) = 1"
    unfolding d2 by (simp add: example_defs filter_engine_def mask_defs)
  from l1 l2 have n: "dataframe p1 \<noteq> []" "dataframe p2 \<noteq> []" by auto
  from chart3_same_when_drawn [OF h y m1 m2] n have "chart3 p1 = chart3 p2" by blast
  with h y m1 m2 n l1 l2 show ?thesis by (intro conjI exI [of _ p1] exI [of _ s1] exI [of _ p2] exI [of _ s2]) simp_all
qed

text \<open>
  The claim as stated fails: two runs on the small data set with the same year interval
  and mass interval, one for the ordinary chondrites and one for the carbonaceous, of
  which none is of the year 2000. The first shows chart 3, the second does not.
\<close>

theorem chart3_counterexample:
  "selected_year_range (example_selection\<lparr>selected_types := [''Carbonaceous Chondrite'']\<rparr>) =
     selected_year_range example_selection \<and>
   selected_mass_range (example_selection\<lparr>selected_types := [''Carbonaceous Chondrite'']\<rparr>) =
     selected_mass_range example_selection \<and>
   map_option (chart3 \<circ> fst) (main sort_key example_selection 0 [example_data]) \<noteq>
   map_option (chart3 \<circ> fst)
     (main sort_key (example_selection\<lparr>selected_types := [''Carbonaceous Chondrite'']\<rparr>) 0
        [example_data]) \<and>
   map_option (chart3 \<circ> fst)
     (main sort_key (example_selection\<lparr>selected_types := [''Carbonaceous Chondrite'']\<rparr>) 0
        [example_data]) = Some None"
  by (simp add: main_def apply_filters_def df_copy_def df_getitem_def
      df_setitem_Year_astype_int_def df_rows_def Year_astype_int_def example_defs mask_defs)

section \<open>Properties of the ten heaviest\<close>

lemma Mass_kg_add: "Mass_kg (add_Mass_kg r) = map_option (\<lambda>m. m / 1000) (Mass_g r)"
  by (simp add: add_Mass_kg_def classified.defs)

lemma Mass_g_add: "Mass_g (add_Mass_kg r) = Mass_g r"
  by (simp add: add_Mass_kg_def classified.defs)

lemma truncate_add: "classified.truncate (add_Mass_kg r) = r"
  by (simp add: add_Mass_kg_def classified.defs)

lemma sort_values_present:
  assumes "\<forall>r\<in>set df. col r \<noteq> None"
  shows "sort_values col ascending df =
           (if ascending then sort_key col df else rev (sort_key col (rev df)))"
proof -
  have "filter (\<lambda>r. col r \<noteq> None) df = df" "filter (\<lambda>r. col r = None) df = []"
    using assms by (simp_all add: filter_empty_conv)
  then show ?thesis by (simp add: sort_values_def)
qed

lemma sort_values_Mass_kg:
  assumes "\<forall>r\<in>set xs. Mass_g r \<noteq> None"
  shows "sort_values Mass_kg True (map add_Mass_kg xs) = sort_key Mass_kg (map add_Mass_kg xs)"
proof -
  have "\<forall>w\<in>set (map add_Mass_kg xs). Mass_kg w \<noteq> None"
    using assms by (simp add: Mass_kg_add del: not_None_eq)
  then show ?thesis by (simp only: sort_values_present if_True)
qed

lemma qualifying_eq:
  "filter (mask_Year yr) (filter (\<lambda>r. Mass_g r \<noteq> None \<and> Year r \<noteq> None) df) = qualifying df yr"
  by (auto simp: qualifying_def mask_Year_iff intro: filter_cong)

lemma qualifying_Mass_g: "r \<in> set (qualifying df yr) \<Longrightarrow> Mass_g r \<noteq> None"
  by (auto simp: qualifying_def)

lemma top_mass_unfold:
  "chart_top_mass_by_year df yr =
     sort_key Mass_kg (map add_Mass_kg (take 10 (rev (sort_key Mass_g (rev (qualifying df yr))))))"
proof -
  define q where "q = qualifying df yr"
  define s where "s = rev (sort_key Mass_g (rev q))"
  have "\<forall>r\<in>set q. Mass_g r \<noteq> None"
    unfolding q_def using qualifying_Mass_g by blast
  then have s1: "sort_values Mass_g False q = s"
    unfolding s_def by (simp only: sort_values_present if_False)
  have "set (take 10 s) \<subseteq> set q"
    using set_take_subset [of 10 s] by (simp add: s_def)
  then have "\<forall>r\<in>set (take 10 s). Mass_g r \<noteq> None"
    using \<open>\<forall>r\<in>set q. Mass_g r \<noteq> None\<close> by blast
  then have s2: "sort_values Mass_kg True (map add_Mass_kg (take 10 s)) =
                 sort_key Mass_kg (map add_Mass_kg (take 10 s))"
    by (rule sort_values_Mass_kg)
  have "chart_top_mass_by_year df yr =
          sort_values Mass_kg True (map add_Mass_kg (take 10 (sort_values Mass_g False q)))"
    by (simp only: chart_top_mass_by_year_def Let_def qualifying_eq q_def)
  also have "\<dots> = sort_key Mass_kg (map add_Mass_kg (take 10 s))"
    by (simp only: s1 s2)
  finally show ?thesis by (simp only: s_def q_def)
qed

lemma sorted_wrt_take_drop:
  "sorted_wrt R xs \<Longrightarrow> \<forall>b\<in>set (take n xs). \<forall>a\<in>set (drop n xs). R b a"
proof -
  assume "sorted_wrt R xs"
  then have "sorted_wrt R (take n xs @ drop n xs)" by simp
  then show ?thesis unfolding sorted_wrt_append by blast
qed

lemma desc_sorted: "sorted_wrt (\<lambda>a b. f b \<le> f a) (rev (sort_key f xs))"
proof -
  have "sorted (map f (sort_key f xs))" by simp
  then have "sorted_wrt (\<lambda>a b. f a \<le> f b) (sort_key f xs)"
    by (simp add: sorted_map)
  then show ?thesis by (simp add: sorted_wrt_rev)
qed

text \<open>
  C3. For every frame and year interval, with \<open>qualifying\<close> the rows whose mass is
  present and whose year is present and inside the interval: the view has ten rows, or
  as many as qualify when these are fewer (none when none qualifies); each of its rows
  is a qualifying row with its mass in kilograms, the mass in grams divided by 1000,
  added; the rows are in ascending order of mass; and they are the heaviest, no
  qualifying row left out being heavier than a row of the view.
\<close>

theorem top_mass_view:
  "length (chart_top_mass_by_year df yr) = min 10 (length (qualifying df yr)) \<and>
   (\<forall>w\<in>set (chart_top_mass_by_year df yr).
       \<exists>m. Mass_g w = Some m \<and> Mass_kg w = Some (m / 1000) \<and>
           classified.truncate w \<in> set (qualifying df yr)) \<and>
   sorted (map Mass_kg (chart_top_mass_by_year df yr)) \<and>
   sorted (map Mass_g (chart_top_mass_by_year df yr)) \<and>
   mset (map classified.truncate (chart_top_mass_by_year df yr)) \<subseteq># mset (qualifying df yr) \<and>
   (\<forall>r\<in>#(mset (qualifying df yr) - mset (map classified.truncate (chart_top_mass_by_year df yr))).
      \<forall>w\<in>set (chart_top_mass_by_year df yr). Mass_g r \<le> Mass_g w)"
proof -
  let ?q = "qualifying df yr"
  let ?s = "rev (sort_key Mass_g (rev ?q))"
  let ?out = "chart_top_mass_by_year df yr"
  have out: "?out = sort_key Mass_kg (map add_Mass_kg (take 10 ?s))"
    by (rule top_mass_unfold)
  note trunc = truncate_add
  have len: "length ?out = min 10 (length ?q)"
    by (simp add: out)
  have set_out: "set ?out = add_Mass_kg ` set (take 10 ?s)"
    by (simp add: out)
  have set_s: "set ?s = set ?q" by simp
  have rows: "\<exists>m. Mass_g w = Some m \<and> Mass_kg w = Some (m / 1000) \<and>
           classified.truncate w \<in> set ?q" if "w \<in> set ?out" for w
  proof -
    from that obtain r where r: "r \<in> set (take 10 ?s)" "w = add_Mass_kg r"
      unfolding set_out by blast
    then have "r \<in> set ?q" using set_s in_set_takeD by fast
    moreover from this obtain m where "Mass_g r = Some m" by (auto simp: qualifying_def)
    ultimately show ?thesis
      using r(2) by (simp add: trunc Mass_kg_add Mass_g_add)
  qed
  have kg: "sorted (map Mass_kg ?out)"
    unfolding out by (rule sorted_sort_key)
  have mono: "Mass_g a \<le> Mass_g b" if "Mass_kg a \<le> Mass_kg b" "a \<in> set ?out" "b \<in> set ?out" for a b
  proof -
    from rows that obtain m n where "Mass_g a = Some m" "Mass_kg a = Some (m / 1000)"
      "Mass_g b = Some n" "Mass_kg b = Some (n / 1000)" by blast
    with that(1) show ?thesis by simp
  qed
  have g: "sorted (map Mass_g ?out)"
    using kg mono unfolding sorted_map by (rule sorted_wrt_mono_rel[rotated]) 
  have mset_out: "mset (map classified.truncate ?out) = mset (take 10 ?s)"
  proof -
    have "mset (map classified.truncate ?out) = image_mset classified.truncate (mset ?out)" by simp
    also have "mset ?out = image_mset add_Mass_kg (mset (take 10 ?s))"
      unfolding out by simp
    finally show ?thesis by (simp add: image_mset.compositionality comp_def trunc)
  qed
  have split: "mset ?q = mset (take 10 ?s) + mset (drop 10 ?s)"
  proof -
    have "mset ?q = mset ?s" by simp
    also have "\<dots> = mset (take 10 ?s @ drop 10 ?s)" by (simp only: append_take_drop_id)
    finally show ?thesis by (simp only: mset_append)
  qed
  have sub: "mset (map classified.truncate ?out) \<subseteq># mset ?q"
    unfolding mset_out split by simp
  have rest: "mset ?q - mset (map classified.truncate ?out) = mset (drop 10 ?s)"
    unfolding mset_out split by simp
  have top: "Mass_g r \<le> Mass_g w" if "r \<in> set (drop 10 ?s)" "w \<in> set ?out" for r w
  proof -
    from that(2) obtain b where b: "b \<in> set (take 10 ?s)" "w = add_Mass_kg b"
      unfolding set_out by blast
    have "Mass_g r \<le> Mass_g b"
      using sorted_wrt_take_drop [OF desc_sorted, of 10 Mass_g "rev ?q"] b(1) that(1) by blast
    then show ?thesis using b(2) by (simp add: Mass_g_add)
  qed
  have top': "\<forall>r\<in>#(mset ?q - mset (map classified.truncate ?out)). \<forall>w\<in>set ?out. Mass_g r \<le> Mass_g w"
    unfolding rest using top by simp
  from len rows kg g sub top' show ?thesis by blast
qed

theorem top_mass_view_witness:
  "length (qualifying example_data (1999, 2000)) = 3 \<and>
   length (chart_top_mass_by_year example_data (1999, 2000)) = 3 \<and>
   sorted (map Mass_kg (chart_top_mass_by_year example_data (1999, 2000))) \<and>
   length (qualifying (replicate 12 (example_classified 1 ''L'' 500 (Some 2000) None)) (1999, 2000)) = 12 \<and>
   length (chart_top_mass_by_year (replicate 12 (example_classified 1 ''L'' 500 (Some 2000) None))
             (1999, 2000)) = 10"
proof -
  have q: "length (qualifying example_data (1999, 2000)) = 3"
    by (simp add: qualifying_def example_defs)
  have q12: "length (qualifying (replicate 12 (example_classified 1 ''L'' 500 (Some 2000) None))
                (1999, 2000)) = 12"
    by (simp add: qualifying_def example_classified_def)
  from top_mass_view [of example_data "(1999, 2000)"]
    top_mass_view [of "replicate 12 (example_classified 1 ''L'' 500 (Some 2000) None)" "(1999, 2000)"]
    q q12
  show ?thesis by simp
qed


section \<open>Properties of the category totals\<close>

subsection \<open>Counting\<close>

lemma map_fst_bump:
  "map fst (bump k acc) = (if k \<in> fst ` set acc then map fst acc else map fst acc @ [k])"
  by (induction acc) (auto split: if_splits)



lemma tally_snoc:
  "tally (col @ [v]) = (case v of None \<Rightarrow> tally col | Some k \<Rightarrow> bump k (tally col))"
  by (simp add: tally_def split: option.splits)

lemma tally_Nil: "tally [] = []"
  by (simp add: tally_def)

lemma keys_tally: "fst ` set (tally col) = {k. Some k \<in> set col}"
proof (induction col rule: rev_induct)
  case Nil
  show ?case by (simp add: tally_Nil)
next
  case (snoc v col)
  show ?case
  proof (cases v)
    case None
    with snoc show ?thesis by (auto simp: tally_snoc)
  next
    case (Some k)
    have "fst ` set (bump k (tally col)) = insert k (fst ` set (tally col))"
      using map_fst_bump [of k "tally col"]
      by (metis (no_types, lifting) insert_absorb list.set_map list.simps(15) rotate1.simps(2)
          set_rotate1)
    with snoc Some show ?thesis by (auto simp: tally_snoc)
  qed
qed




lemma first_seen_less: "Some k \<in> set col \<Longrightarrow> first_seen k col < length col"
  unfolding first_seen_def by (induction col) auto

lemma first_seen_snoc_old: "Some k \<in> set col \<Longrightarrow> first_seen k (col @ [v]) = first_seen k col"
  unfolding first_seen_def by (induction col) auto

lemma first_seen_snoc_new: "Some k \<notin> set col \<Longrightarrow> first_seen k (col @ [Some k]) = length col"
  unfolding first_seen_def by (induction col) auto

lemma first_seen_tally:
  "sorted_wrt (<) (map (\<lambda>k. first_seen k col) (map fst (tally col)))"
proof (induction col rule: rev_induct)
  case Nil
  show ?case by (simp add: tally_Nil)
next
  case (snoc v col)
  let ?keys = "map fst (tally col)"
  let ?F = "\<lambda>k. first_seen k (col @ [v])"
  have in_col: "Some k \<in> set col" if "k \<in> set ?keys" for k
    using that keys_tally [of col] by auto
  have old: "map ?F ?keys = map (\<lambda>k. first_seen k col) ?keys"
    by (rule map_cong [OF refl]) (simp only: in_col first_seen_snoc_old)
  have IH': "sorted_wrt (<) (map ?F ?keys)"
    unfolding old by (rule snoc.IH)
  show ?case
  proof (cases v)
    case None
    then have "tally (col @ [v]) = tally col" by (simp add: tally_snoc)
    then show ?thesis using IH' by (simp only:)
  next
    case (Some k)
    show ?thesis
    proof (cases "k \<in> fst ` set (tally col)")
      case True
      then have "map fst (tally (col @ [v])) = ?keys"
        using Some by (simp add: tally_snoc map_fst_bump)
      then show ?thesis using IH' by (simp only:)
    next
      case False
      then have keys': "map fst (tally (col @ [v])) = ?keys @ [k]"
        using Some by (simp add: tally_snoc map_fst_bump)
      from False have "Some k \<notin> set col" using keys_tally [of col] by auto
      then have new: "?F k = length col"
        unfolding Some by (rule first_seen_snoc_new)
      have small: "x < length col" if "x \<in> set (map ?F ?keys)" for x
      proof -
        from that obtain k' where k': "k' \<in> set ?keys" "x = first_seen k' col"
          unfolding old by auto
        from in_col [OF k'(1)] show ?thesis
          unfolding k'(2) by (rule first_seen_less)
      qed
      have "sorted_wrt (<) (map ?F ?keys @ [?F k])"
        unfolding sorted_wrt_append new using IH' small by simp
      then show ?thesis by (simp only: keys' map_append list.map)
    qed
  qed
qed

subsection \<open>Sorting largest first\<close>

lemma sort_values_kind_counts:
  "sort_values_kind kind (\<lambda>kv. Some (snd kv)) False xs =
     rev (kind (\<lambda>kv. Some (snd kv)) (rev xs))"
  by (simp add: sort_values_kind_def)




lemma sorted_sort_desc:
  assumes "sorting_routine kind"
  shows "sorted_wrt (\<lambda>a b. f b \<le> f a) (rev (kind f xs))"
proof -
  from assms have "sorted (map f (kind f xs))"
    unfolding sorting_routine_def by blast
  then have "sorted_wrt (\<lambda>a b. f a \<le> f b) (kind f xs)"
    by (simp add: sorted_map)
  then show ?thesis by (simp add: sorted_wrt_rev)
qed







subsection \<open>With a stable routine\<close>

text \<open>
  When the routine keeps rows of equal key in their order, as the kind \<open>stable\<close>
  does, entries with the same count are in the order in which their categories first
  occur in the frame.
\<close>

lemma insort_key_lex:
  assumes "sorted_wrt (\<lambda>a b. f a < f b \<or> (f a = f b \<and> Q a b)) ys"
    and "\<forall>y\<in>set ys. Q x y"
  shows "sorted_wrt (\<lambda>a b. f a < f b \<or> (f a = f b \<and> Q a b)) (insort_key f x ys)"
  using assms
proof (induction ys)
  case Nil
  show ?case by simp
next
  case (Cons y ys)
  show ?case
  proof (cases "f x \<le> f y")
    case True
    have "f x < f z \<or> (f x = f z \<and> Q x z)" if "z \<in> set (y # ys)" for z
    proof -
      have "f y \<le> f z" using Cons.prems(1) that by auto
      with True have "f x \<le> f z" by simp
      moreover have "Q x z" using Cons.prems(2) that by blast
      ultimately show ?thesis by auto
    qed
    with True Cons.prems(1) show ?thesis by simp
  next
    case False
    then have "f y < f x" by simp
    with False Cons show ?thesis by (auto simp: set_insort_key)
  qed
qed

lemma sort_key_lex:
  "sorted_wrt Q xs \<Longrightarrow> sorted_wrt (\<lambda>a b. f a < f b \<or> (f a = f b \<and> Q a b)) (sort_key f xs)"
  by (induction xs) (simp_all add: insort_key_lex)

lemma sort_desc_lex:
  assumes "sorted_wrt Q xs"
  shows "sorted_wrt (\<lambda>a b. f b < f a \<or> (f a = f b \<and> Q a b)) (rev (sort_key f (rev xs)))"
proof -
  from assms have "sorted_wrt (\<lambda>a b. Q b a) (rev xs)"
    by (simp add: sorted_wrt_rev)
  then have "sorted_wrt (\<lambda>a b. f a < f b \<or> (f a = f b \<and> Q b a)) (sort_key f (rev xs))"
    by (rule sort_key_lex)
  then have "sorted_wrt (\<lambda>a b. f b < f a \<or> (f b = f a \<and> Q a b)) (rev (sort_key f (rev xs)))"
    by (simp add: sorted_wrt_rev)
  then show ?thesis
    by (rule sorted_wrt_mono_rel [rotated]) auto
qed

lemma type_counts_lex:
  assumes "sorted_wrt Q (tally (map Type df))"
  shows "sorted_wrt (\<lambda>a b. snd b < snd a \<or> (snd a = snd b \<and> Q a b)) (type_counts sort_key df)"
proof -
  let ?f = "\<lambda>kv :: string \<times> nat. Some (snd kv)"
  let ?R = "\<lambda>a b. ?f b < ?f a \<or> (?f a = ?f b \<and> Q a b)"
  have "sorted_wrt ?R (value_counts sort_key (map Type df))"
    unfolding value_counts_def sort_values_kind_counts using assms by (rule sort_desc_lex)
  then have "sorted_wrt (\<lambda>a b. ?f b < ?f a \<or> (?f a = ?f b \<and> ?R a b)) (type_counts sort_key df)"
    unfolding type_counts_def sort_values_kind_counts by (rule sort_desc_lex)
  then show ?thesis
    by (rule sorted_wrt_mono_rel [rotated]) auto
qed

lemma type_counts_ties_when_stable:
  "sorted_wrt (\<lambda>a b. snd b < snd a \<or>
                 (snd a = snd b \<and>
                  first_seen (fst a) (map Type df) < first_seen (fst b) (map Type df)))
     (type_counts sort_key df)"
proof -
  let ?col = "map Type df"
  have "sorted_wrt (\<lambda>a b. first_seen (fst a) ?col < first_seen (fst b) ?col) (tally ?col)"
    using first_seen_tally [of ?col] by (simp add: sorted_wrt_map)
  then show ?thesis by (rule type_counts_lex)
qed

section \<open>The ten heaviest with any sorting routine\<close>

text \<open>
  The view of the ten heaviest is \<open>chart_top_mass_by_year_kind\<close> with the stable
  routine, and its length, its rows, their order by mass and their being the heaviest
  hold with every pair of routines that sort: the order of rows of equal mass plays no
  part in them.
\<close>

lemma sort_values_kind_sort_key: "sort_values_kind sort_key col ascending df = sort_values col ascending df"
  by (simp add: sort_values_kind_def sort_values_def)

lemma chart_top_mass_by_year_stable:
  "chart_top_mass_by_year df yr = chart_top_mass_by_year_kind sort_key sort_key df yr"
  by (simp add: chart_top_mass_by_year_def chart_top_mass_by_year_kind_def
      sort_values_kind_sort_key)

lemma sort_values_kind_present:
  assumes "\<forall>r\<in>set df. col r \<noteq> None"
  shows "sort_values_kind kind col ascending df =
           (if ascending then kind col df else rev (kind col (rev df)))"
proof -
  have "filter (\<lambda>r. col r \<noteq> None) df = df" "filter (\<lambda>r. col r = None) df = []"
    using assms by (simp_all add: filter_empty_conv)
  then show ?thesis by (simp add: sort_values_kind_def)
qed

lemma sorting_routine_mset: "sorting_routine kind \<Longrightarrow> mset (kind f xs) = mset xs"
  unfolding sorting_routine_def by blast

lemma sorting_routine_sorted: "sorting_routine kind \<Longrightarrow> sorted (map f (kind f xs))"
  unfolding sorting_routine_def by blast

lemma top_mass_kind_unfold:
  assumes "sorting_routine kind_g"
  shows "chart_top_mass_by_year_kind kind_g kind_kg df yr =
     kind_kg Mass_kg (map add_Mass_kg (take 10 (rev (kind_g Mass_g (rev (qualifying df yr))))))"
proof -
  define q where "q = qualifying df yr"
  define s where "s = rev (kind_g Mass_g (rev q))"
  have present: "\<forall>r\<in>set q. Mass_g r \<noteq> None"
    unfolding q_def using qualifying_Mass_g by blast
  then have s1: "sort_values_kind kind_g Mass_g False q = s"
    unfolding s_def by (simp only: sort_values_kind_present if_False)
  have "mset s = mset q"
    unfolding s_def using sorting_routine_mset [OF assms, of Mass_g "rev q"] by simp
  then have "set s = set q" by (rule mset_eq_setD)
  then have "set (take 10 s) \<subseteq> set q"
    using set_take_subset [of 10 s] by simp
  then have "\<forall>r\<in>set (take 10 s). Mass_g r \<noteq> None"
    using present by blast
  then have "\<forall>w\<in>set (map add_Mass_kg (take 10 s)). Mass_kg w \<noteq> None"
    by (simp add: Mass_kg_add del: not_None_eq)
  then have s2: "sort_values_kind kind_kg Mass_kg True (map add_Mass_kg (take 10 s)) =
                 kind_kg Mass_kg (map add_Mass_kg (take 10 s))"
    by (simp only: sort_values_kind_present if_True)
  have "chart_top_mass_by_year_kind kind_g kind_kg df yr =
          sort_values_kind kind_kg Mass_kg True
            (map add_Mass_kg (take 10 (sort_values_kind kind_g Mass_g False q)))"
    by (simp only: chart_top_mass_by_year_kind_def Let_def qualifying_eq q_def)
  also have "\<dots> = kind_kg Mass_kg (map add_Mass_kg (take 10 s))"
    by (simp only: s1 s2)
  finally show ?thesis by (simp only: s_def q_def)
qed

lemma top_mass_view_any_routine:
  assumes "sorting_routine kind_g" and "sorting_routine kind_kg"
  shows "length (chart_top_mass_by_year_kind kind_g kind_kg df yr) =
           min 10 (length (qualifying df yr)) \<and>
   (\<forall>w\<in>set (chart_top_mass_by_year_kind kind_g kind_kg df yr).
       \<exists>m. Mass_g w = Some m \<and> Mass_kg w = Some (m / 1000) \<and>
           classified.truncate w \<in> set (qualifying df yr)) \<and>
   sorted (map Mass_kg (chart_top_mass_by_year_kind kind_g kind_kg df yr)) \<and>
   mset (map classified.truncate (chart_top_mass_by_year_kind kind_g kind_kg df yr))
     \<subseteq># mset (qualifying df yr) \<and>
   (\<forall>r\<in>#(mset (qualifying df yr) -
          mset (map classified.truncate (chart_top_mass_by_year_kind kind_g kind_kg df yr))).
      \<forall>w\<in>set (chart_top_mass_by_year_kind kind_g kind_kg df yr). Mass_g r \<le> Mass_g w)"
proof -
  let ?q = "qualifying df yr"
  let ?s = "rev (kind_g Mass_g (rev ?q))"
  let ?t = "map add_Mass_kg (take 10 ?s)"
  let ?out = "chart_top_mass_by_year_kind kind_g kind_kg df yr"
  have out: "?out = kind_kg Mass_kg ?t"
    using assms(1) by (rule top_mass_kind_unfold)
  have mset_s: "mset ?s = mset ?q"
    using sorting_routine_mset [OF assms(1), of Mass_g "rev ?q"] by simp
  then have set_s: "set ?s = set ?q" by (rule mset_eq_setD)
  have mset_out: "mset ?out = mset ?t"
    unfolding out using assms(2) by (rule sorting_routine_mset)
  then have set_out: "set ?out = add_Mass_kg ` set (take 10 ?s)"
    using mset_eq_setD [OF mset_out] by simp
  have "length ?out = length ?t"
    using mset_out by (rule mset_eq_length)
  also have "\<dots> = min 10 (length ?s)" by simp
  also have "length ?s = length ?q"
    using mset_s by (rule mset_eq_length)
  finally have len: "length ?out = min 10 (length ?q)" .
  have rows: "\<exists>m. Mass_g w = Some m \<and> Mass_kg w = Some (m / 1000) \<and>
           classified.truncate w \<in> set ?q" if "w \<in> set ?out" for w
  proof -
    from that obtain r where r: "r \<in> set (take 10 ?s)" "w = add_Mass_kg r"
      unfolding set_out by blast
    then have "r \<in> set ?q" using set_s in_set_takeD by fast
    moreover from this obtain m where "Mass_g r = Some m" by (auto simp: qualifying_def)
    ultimately show ?thesis
      using r(2) by (simp add: truncate_add Mass_kg_add Mass_g_add)
  qed
  have kg: "sorted (map Mass_kg ?out)"
    unfolding out using assms(2) by (rule sorting_routine_sorted)
  have trunc: "mset (map classified.truncate ?out) = mset (take 10 ?s)"
  proof -
    have "mset (map classified.truncate ?out) = image_mset classified.truncate (mset ?out)"
      by simp
    also have "\<dots> = image_mset classified.truncate (image_mset add_Mass_kg (mset (take 10 ?s)))"
      unfolding mset_out by simp
    finally show ?thesis
      by (simp add: image_mset.compositionality comp_def truncate_add)
  qed
  have split: "mset ?q = mset (take 10 ?s) + mset (drop 10 ?s)"
  proof -
    have "mset ?q = mset (take 10 ?s @ drop 10 ?s)"
      using mset_s by (simp only: append_take_drop_id)
    then show ?thesis by (simp only: mset_append)
  qed
  have sub: "mset (map classified.truncate ?out) \<subseteq># mset ?q"
    unfolding trunc split by simp
  have rest: "mset ?q - mset (map classified.truncate ?out) = mset (drop 10 ?s)"
    unfolding trunc split by simp
  have desc: "sorted_wrt (\<lambda>a b. Mass_g b \<le> Mass_g a) ?s"
    using assms(1) by (rule sorted_sort_desc)
  have top: "Mass_g r \<le> Mass_g w" if "r \<in> set (drop 10 ?s)" "w \<in> set ?out" for r w
  proof -
    from that(2) obtain b where b: "b \<in> set (take 10 ?s)" "w = add_Mass_kg b"
      unfolding set_out by blast
    have "Mass_g r \<le> Mass_g b"
      using sorted_wrt_take_drop [OF desc, of 10] b(1) that(1) by blast
    then show ?thesis using b(2) by (simp add: Mass_g_add)
  qed
  have top': "\<forall>r\<in>#(mset ?q - mset (map classified.truncate ?out)).
                \<forall>w\<in>set ?out. Mass_g r \<le> Mass_g w"
    unfolding rest using top by simp
  from len rows kg sub top' show ?thesis by blast
qed


end
